theory Spec2Isabelle
  imports Complex_Main "HOL-Library.Signed_Division"
begin

section \<open>Linear-algebra layer\<close>

text \<open>
  The certifier of \<^verbatim>\<open>certification.cc\<close> works on Eigen matrices of \<^verbatim>\<open>double\<close>.
  Scalars are modelled as \<^typ>\<open>real\<close>: the development is about which entry is
  written where and with which formula, not about rounding.  C++ \<^verbatim>\<open>int\<close> values are
  modelled as \<^typ>\<open>int\<close> (sizes are assumed to fit 32 bits), and \<^verbatim>\<open>/\<close> on them is the
  truncating \<^const>\<open>signed_divide\<close>.

  Eigen checks its index ranges with \<^verbatim>\<open>eigen_assert\<close>; a failed assertion is modelled
  as a value of \<open>eigen_error\<close>, so a function that can run into one returns
  \<open>eigen_error + 'a\<close>.
\<close>

datatype eigen_error =
    IndexOutOfRange       \<comment> \<open>coefficient, column or block access outside the matrix\<close>
  | CommaInitEmpty        \<comment> \<open>\<^verbatim>\<open>operator<<\<close> on a matrix with no coefficients\<close>
  | CommaInitSize         \<comment> \<open>\<^verbatim>\<open>operator<<\<close> with too many or too few coefficients\<close>
  | TransposeAliasing     \<comment> \<open>destination aliased with a transposed operand\<close>
  | SizeMismatch          \<comment> \<open>operands of incompatible sizes\<close>
  | AssertFailed          \<comment> \<open>an \<^verbatim>\<open>assert\<close> of the certifier itself\<close>

type_synonym coeffs = "nat \<Rightarrow> nat \<Rightarrow> real"

text \<open>A dynamically sized dense matrix: its sizes and its coefficients.\<close>

record matrix =
  nrows :: nat
  ncols :: nat
  coeff :: coeffs

definition bindE :: "'e + 'a \<Rightarrow> ('a \<Rightarrow> 'e + 'b) \<Rightarrow> 'e + 'b" where
  "bindE m f = (case m of Inl e \<Rightarrow> Inl e | Inr a \<Rightarrow> f a)"

fun foldE :: "('a \<Rightarrow> 's \<Rightarrow> 'e + 's) \<Rightarrow> 'a list \<Rightarrow> 's \<Rightarrow> 'e + 's" where
  "foldE f [] s = Inr s"
| "foldE f (x # xs) s = (case f x s of Inl e \<Rightarrow> Inl e | Inr s' \<Rightarrow> foldE f xs s')"

text \<open>Coefficients given row by row, as \<^verbatim>\<open>m << a, b, c, ...\<close> fills a fixed-size matrix.\<close>

definition of_rows :: "real list list \<Rightarrow> coeffs" where
  "of_rows rs = (\<lambda>r c. rs ! r ! c)"

definition zeros :: coeffs where
  "zeros = (\<lambda>r c. 0)"

definition identity :: coeffs where
  "identity = (\<lambda>r c. if r = c then 1 else 0)"

definition transpose_c :: "coeffs \<Rightarrow> coeffs" where
  "transpose_c A = (\<lambda>r c. A c r)"

text \<open>\<^verbatim>\<open>M.block(r0, c0, h, w) = B\<close> on the coefficients (the range is checked by the caller).\<close>

definition set_block :: "nat \<Rightarrow> nat \<Rightarrow> nat \<Rightarrow> nat \<Rightarrow> coeffs \<Rightarrow> coeffs \<Rightarrow> coeffs" where
  "set_block r0 c0 h w B M =
     (\<lambda>r c. if r0 \<le> r \<and> r < r0 + h \<and> c0 \<le> c \<and> c < c0 + w then B (r - r0) (c - c0) else M r c)"

definition get_block :: "nat \<Rightarrow> nat \<Rightarrow> coeffs \<Rightarrow> coeffs" where
  "get_block r0 c0 M = (\<lambda>r c. M (r0 + r) (c0 + c))"

text \<open>The product of an \<open>h \<times> n\<close> with an \<open>n \<times> w\<close> matrix.\<close>

definition mat_mul :: "nat \<Rightarrow> coeffs \<Rightarrow> coeffs \<Rightarrow> coeffs" where
  "mat_mul n A B = (\<lambda>r c. \<Sum>k\<leftarrow>[0..<n]. A r k * B k c)"

section \<open>Quaternion embedding\<close>

text \<open>\<^verbatim>\<open>Eigen::Quaterniond\<close>, read through \<^verbatim>\<open>x()\<close>, \<^verbatim>\<open>y()\<close>, \<^verbatim>\<open>z()\<close>, \<^verbatim>\<open>w()\<close>.\<close>

record quaternion =
  qx :: real
  qy :: real
  qz :: real
  qw :: real

definition squaredNorm_q :: "quaternion \<Rightarrow> real" where
  "squaredNorm_q q = qx q * qx q + qy q * qy q + qz q * qz q + qw q * qw q"

text \<open>\<^verbatim>\<open>DRSCertifier::getOmega1\<close>, lines 141-150, coefficient by coefficient.\<close>

definition getOmega1 :: "quaternion \<Rightarrow> coeffs" where
  "getOmega1 q = of_rows
     [[  qw q, - qz q,   qy q, qx q],
      [  qz q,   qw q, - qz q, qy q],
      [- qy q,   qz q,   qw q, qz q],
      [- qz q, - qy q, - qz q, qw q]]"

text \<open>
  \<^verbatim>\<open>DRSCertifier::getBlockDiagOmega\<close>, lines 152-161: resize to \<open>Npm \<times> Npm\<close>, set to
  zero, then write \<open>getOmega1 q\<close> on the diagonal blocks \<open>i < Npm / 4\<close>.  Every block
  written lies inside the matrix, since \<open>4 * i + 4 \<le> Npm\<close> for these \<open>i\<close>.
\<close>

definition getBlockDiagOmega :: "nat \<Rightarrow> quaternion \<Rightarrow> matrix" where
  "getBlockDiagOmega Npm q =
     \<lparr> nrows = Npm, ncols = Npm,
       coeff = fold (\<lambda>i D. let start_idx = i * 4 in set_block start_idx start_idx 4 4 (getOmega1 q) D)
                 [0..<Npm div 4] zeros \<rparr>"

section \<open>Affine-subspace projector: the inverse map\<close>

text \<open>
  An \<^verbatim>\<open>Eigen::SparseMatrix\<close> is modelled by the same record as a dense matrix.
  \<^verbatim>\<open>setFromTriplets\<close> sums the values of the triplets that share a position, and
  asserts that every triplet lies inside the matrix.
\<close>

type_synonym triplet = "nat \<times> nat \<times> real"

definition setFromTriplets :: "nat \<Rightarrow> nat \<Rightarrow> triplet list \<Rightarrow> eigen_error + matrix" where
  "setFromTriplets n m ts =
     (if list_all (\<lambda>(r, c, v). r < n \<and> c < m) ts
      then Inr \<lparr> nrows = n, ncols = m,
                 coeff = (\<lambda>r c. sum_list (map (\<lambda>(r', c', v). v)
                                      (filter (\<lambda>(r', c', v). r' = r \<and> c' = c) ts))) \<rparr>
      else Inl IndexOutOfRange)"

text \<open>
  The pairs \<open>(i, j)\<close> visited by
  \<^verbatim>\<open>for (i = 0; i < N - 1; ++i) for (j = i + 1; j < N; ++j)\<close>, in order.
  (For \<open>N = 0\<close> the C++ bound \<^verbatim>\<open>N - 1\<close> wraps around as a \<^verbatim>\<open>size_t\<close>, but then the inner
  loop is empty for every \<open>i\<close>: no pair is visited, as here.)
\<close>

definition pair_loop :: "nat \<Rightarrow> (nat \<times> nat) list" where
  "pair_loop N = concat (map (\<lambda>i. map (\<lambda>j. (i, j)) [i + 1..<N]) [0..<N - 1])"

text \<open>
  Lines 390-397: \<^verbatim>\<open>mat2vec(i, j) = count; count += 1\<close> over the pairs, from the zero
  matrix.  The matrix holds the counts as doubles; they are read back as \<^verbatim>\<open>int\<close>
  without loss, so the model keeps them as natural numbers.
\<close>

definition mat2vec_step ::
    "nat \<times> nat \<Rightarrow> (nat \<Rightarrow> nat \<Rightarrow> nat) \<times> nat \<Rightarrow> (nat \<Rightarrow> nat \<Rightarrow> nat) \<times> nat" where
  "mat2vec_step p s =
     (case (p, s) of ((i, j), (mat2vec, count)) \<Rightarrow>
        (\<lambda>a b. if a = i \<and> b = j then count else mat2vec a b, count + 1))"

definition build_mat2vec :: "nat \<Rightarrow> nat \<Rightarrow> nat \<Rightarrow> nat" where
  "build_mat2vec N = fst (fold mat2vec_step (pair_loop N) (\<lambda>i j. 0, 0))"

text \<open>Lines 408-441: the triplets pushed for one pair \<open>(i, j)\<close>, by the two loops over \<open>p\<close>.\<close>

definition column_triplets ::
    "int \<Rightarrow> real list \<Rightarrow> (nat \<Rightarrow> nat \<Rightarrow> nat) \<Rightarrow> nat \<Rightarrow> nat \<Rightarrow> nat \<Rightarrow> triplet list" where
  "column_triplets y theta_prepended mat2vec N i j =
     (let var_1_idx = mat2vec i j in
      concat (map (\<lambda>p.
          if p \<noteq> j \<and> p \<noteq> i then
            [if p < i
             then (mat2vec p i, var_1_idx, of_int y * theta_prepended ! j * theta_prepended ! p)
             else (mat2vec i p, var_1_idx, of_int (- y) * theta_prepended ! j * theta_prepended ! p)]
          else []) [0..<N])
      @
      concat (map (\<lambda>p.
          if p \<noteq> i \<and> p \<noteq> j then
            [if p < j
             then (mat2vec p j, var_1_idx, of_int (- y) * theta_prepended ! i * theta_prepended ! p)
             else (mat2vec j p, var_1_idx, of_int y * theta_prepended ! i * theta_prepended ! p)]
          else []) [0..<N]))"

text \<open>
  \<^verbatim>\<open>DRSCertifier::getLinearProjection\<close>, lines 376-449.  \<open>y\<close> and \<open>x\<close> are declared
  \<^verbatim>\<open>int\<close> in the source, so \<^verbatim>\<open>1 / (2 * N0 + 6)\<close> is the truncating integer division.
\<close>

definition getLinearProjection :: "real list \<Rightarrow> eigen_error + matrix" where
  "getLinearProjection theta_prepended =
     (let N0 = int (length theta_prepended) - 1;
          y = 1 sdiv (2 * N0 + 6);
          x = (N0 + 1) * y;
          N = nat (N0 + 1);
          nr_vals = N * (N - 1) div 2;
          mat2vec = build_mat2vec N;
          sparse_triplets =
            concat (map (\<lambda>(i, j). column_triplets y theta_prepended mat2vec N i j) (pair_loop N))
            @ map (\<lambda>i. (i, i, of_int x)) [0..<nr_vals]
      in setFromTriplets nr_vals nr_vals sparse_triplets)"

section \<open>Cost matrix\<close>

text \<open>
  A \<^verbatim>\<open>Matrix<double, 3, Dynamic>\<close> of points is the list of its columns.  \<^verbatim>\<open>col(k)\<close>
  asserts \<open>k < cols()\<close>.
\<close>

type_synonym vec3 = "real \<times> real \<times> real"

definition vec3_at :: "vec3 \<Rightarrow> nat \<Rightarrow> real" where
  "vec3_at v i = (case v of (a, b, c) \<Rightarrow> if i = 0 then a else if i = 1 then b else c)"

definition squaredNorm :: "vec3 \<Rightarrow> real" where
  "squaredNorm v = (case v of (a, b, c) \<Rightarrow> a * a + b * b + c * c)"

definition col :: "vec3 list \<Rightarrow> nat \<Rightarrow> eigen_error + vec3" where
  "col v k = (if k < length v then Inr (v ! k) else Inl IndexOutOfRange)"

text \<open>Lines 81-91: the \<open>9 \<times> 16\<close> table that maps \<open>vec(q q\<^sup>T)\<close> to \<open>vec(R)\<close>.\<close>

definition P_table :: coeffs where
  "P_table = of_rows
     [[ 1, 0, 0,  0, 0, -1, 0,  0, 0, 0, -1,  0,  0,  0,  0, 1],
      [ 0, 1, 0,  0, 1,  0, 0,  0, 0, 0,  0,  1,  0,  0,  1, 0],
      [ 0, 0, 1,  0, 0,  0, 0, -1, 1, 0,  0,  0,  0, -1,  0, 0],
      [ 0, 1, 0,  0, 1,  0, 0,  0, 0, 0,  0, -1,  0,  0, -1, 0],
      [-1, 0, 0,  0, 0,  1, 0,  0, 0, 0, -1,  0,  0,  0,  0, 1],
      [ 0, 0, 0,  1, 0,  0, 1,  0, 0, 1,  0,  0,  1,  0,  0, 0],
      [ 0, 0, 1,  0, 0,  0, 0,  1, 1, 0,  0,  0,  0,  1,  0, 0],
      [ 0, 0, 0, -1, 0,  0, 1,  0, 0, 1,  0,  0, -1,  0,  0, 0],
      [-1, 0, 0,  0, 0, -1, 0,  0, 0, 0,  1,  0,  0,  0,  0, 1]]"

text \<open>
  Lines 107-110 (and 127-130): \<open>temp_A = v2.col(k) * v1.col(k)\<^sup>T\<close>, read column-major
  as a 9-vector, multiplied by \<open>P\<^sup>T\<close>, and the 16-vector read column-major as a
  \<open>4 \<times> 4\<close> matrix.
\<close>

definition compute_P_k :: "vec3 \<Rightarrow> vec3 \<Rightarrow> coeffs" where
  "compute_P_k v1k v2k =
     (let temp_A = (\<lambda>r c. vec3_at v2k r * vec3_at v1k c);
          temp_map2vec = (\<lambda>m. temp_A (m mod 3) (m div 3));
          temp_B = (\<lambda>n. \<Sum>m\<leftarrow>[0..<9]. P_table m n * temp_map2vec m)
      in (\<lambda>r c. temp_B (r + 4 * c)))"

text \<open>Lines 103-118: one iteration of the loop that fills \<open>Q1\<close>.\<close>

definition Q1_step :: "real \<Rightarrow> vec3 list \<Rightarrow> vec3 list \<Rightarrow> nat \<Rightarrow> coeffs \<Rightarrow> eigen_error + coeffs" where
  "Q1_step cbar2 v1 v2 k Q1 =
     bindE (col v2 k) (\<lambda>v2k. bindE (col v1 k) (\<lambda>v1k.
       let start_idx = k * 4 + 4;
           P_k = compute_P_k v1k v2k;
           ck = 0.5 * (squaredNorm v1k + squaredNorm v2k - cbar2);
           Q1a = set_block 0 start_idx 4 4
                   (\<lambda>r c. get_block 0 start_idx Q1 r c - 0.5 * P_k r c + ck / 2 * identity r c) Q1;
           Q1b = set_block start_idx 0 4 4
                   (\<lambda>r c. get_block start_idx 0 Q1a r c - 0.5 * P_k r c + ck / 2 * identity r c) Q1a
       in Inr Q1b))"

text \<open>Lines 123-136: one iteration of the loop that fills \<open>Q2\<close>.\<close>

definition Q2_step :: "real \<Rightarrow> vec3 list \<Rightarrow> vec3 list \<Rightarrow> nat \<Rightarrow> coeffs \<Rightarrow> eigen_error + coeffs" where
  "Q2_step cbar2 v1 v2 k Q2 =
     bindE (col v2 k) (\<lambda>v2k. bindE (col v1 k) (\<lambda>v1k.
       let start_idx = k * 4 + 4;
           P_k = compute_P_k v1k v2k;
           ck = 0.5 * (squaredNorm v1k + squaredNorm v2k + cbar2)
       in Inr (set_block start_idx start_idx 4 4
                 (\<lambda>r c. get_block start_idx start_idx Q2 r c - P_k r c + ck * identity r c) Q2)))"

text \<open>
  \<^verbatim>\<open>DRSCertifier::getQCost\<close>, lines 74-139; \<open>cbar2\<close> is the member \<^verbatim>\<open>cbar2_\<close>.  Both
  loops run \<open>k\<close> over \<open>0..<N\<close> with \<open>N = v1.cols()\<close>; the blocks they write lie inside
  the \<open>Npm \<times> Npm\<close> matrices.
\<close>

definition getQCost :: "real \<Rightarrow> vec3 list \<Rightarrow> vec3 list \<Rightarrow> eigen_error + matrix" where
  "getQCost cbar2 v1 v2 =
     (let N = length v1; Npm = 4 + 4 * N in
      bindE (foldE (Q1_step cbar2 v1 v2) [0..<N] zeros) (\<lambda>Q1.
      bindE (foldE (Q2_step cbar2 v1 v2) [0..<N] zeros) (\<lambda>Q2.
        Inr \<lparr> nrows = Npm, ncols = Npm, coeff = (\<lambda>r c. Q1 r c + Q2 r c) \<rparr>)))"

text \<open>The invariant of both loops: symmetric coefficients, and a zero block (0,0).\<close>

definition sym0 :: "coeffs \<Rightarrow> bool" where
  "sym0 M \<longleftrightarrow> (\<forall>r c. M r c = M c r) \<and> (\<forall>r c. r < 4 \<and> c < 4 \<longrightarrow> M r c = 0)"

section \<open>Affine-subspace projector: applying it\<close>

text \<open>
  Two objects of \<^verbatim>\<open>getOptimalDualProjection\<close> are read without having been written:
  the local \<^verbatim>\<open>temp_B\<close> (declared at line 197, never assigned), and the coefficients of
  \<^verbatim>\<open>*W_dual\<close> after \<^verbatim>\<open>resize\<close> when the resize has to reallocate.  Their contents are
  not fixed by the source; the model takes them as a parameter.  The same holds for
  \<^verbatim>\<open>J_bar\<close> of \<^verbatim>\<open>certify\<close>, allocated at line 48 without initialization.
\<close>

record indeterminate =
  temp_B_mem :: "nat \<Rightarrow> real \<times> real"  \<comment> \<open>\<^verbatim>\<open>temp_B\<close> in the iteration that writes row \<open>count\<close>\<close>
  W_dual_mem :: coeffs                 \<comment> \<open>\<^verbatim>\<open>*W_dual\<close> after a reallocating \<^verbatim>\<open>resize\<close>\<close>
  J_bar_mem :: coeffs                  \<comment> \<open>\<^verbatim>\<open>J_bar\<close> as allocated\<close>

text \<open>\<^verbatim>\<open>W.block<1, 3>(r, c)\<close>: a row slice of three coefficients.\<close>

definition block_1x3 :: "matrix \<Rightarrow> nat \<Rightarrow> nat \<Rightarrow> eigen_error + (nat \<Rightarrow> real)" where
  "block_1x3 W r c =
     (if r < nrows W \<and> c + 3 \<le> ncols W then Inr (\<lambda>k. coeff W r (c + k)) else Inl IndexOutOfRange)"

text \<open>
  Lines 181-217: the body of the loop that fills \<open>b_W\<close>, for the pair \<open>(i, j)\<close>.
  \<open>temp_A\<close> is assigned twice and \<open>temp_B\<close> never; \<open>col_idx_end\<close> is computed from \<open>i\<close>.
  \<^verbatim>\<open>temp_CD << temp_C, temp_D\<close> stacks the two slices, so the row vector \<open>temp_A\<close> times
  \<open>temp_CD\<close> is \<open>temp_A\<^sub>0 * temp_C + temp_A\<^sub>1 * temp_D\<close>.
\<close>

definition b_W_step ::
    "matrix \<Rightarrow> real list \<Rightarrow> nat \<Rightarrow> (nat \<Rightarrow> real \<times> real) \<Rightarrow> nat \<times> nat \<Rightarrow> coeffs \<times> nat
      \<Rightarrow> eigen_error + coeffs \<times> nat" where
  "b_W_step W theta_prepended nr_off_diag_blks tB p s =
     (case (p, s) of ((i, j), (b_W, count)) \<Rightarrow>
        let row_idx_start = i * 4;
            row_idx_end = i * 4 + 3;
            col_idx_start = j * 4;
            col_idx_end = i * 4 + 3;
            theta_ij = theta_prepended ! i * theta_prepended ! j;
            temp_A = (- theta_ij, 1 :: real);
            temp_B = tB count;
            temp_A = (- 1, theta_ij)
        in bindE (block_1x3 W row_idx_end row_idx_start) (\<lambda>temp_C.
           bindE (block_1x3 W col_idx_end row_idx_start) (\<lambda>temp_D.
           bindE (block_1x3 W row_idx_end col_idx_start) (\<lambda>temp_E.
           bindE (block_1x3 W col_idx_end col_idx_start) (\<lambda>temp_F.
             let y_b_Wt = (\<lambda>k. (fst temp_A * temp_C k + snd temp_A * temp_D k)
                              + (fst temp_B * temp_E k + snd temp_B * temp_F k))
             in if count < nr_off_diag_blks
                then Inr (\<lambda>r c. if r = count \<and> c < 3 then y_b_Wt c else b_W r c, count + 1)
                else Inl IndexOutOfRange)))))"

text \<open>
  Lines 176-219: \<open>b_W\<close>, from the zero matrix; the loops
  \<^verbatim>\<open>for (i = 0; i < N; ++i) for (j = i + 1; j < N + 1; ++j)\<close> visit \<open>pair_loop (N + 1)\<close>.
\<close>

definition compute_b_W ::
    "matrix \<Rightarrow> real list \<Rightarrow> nat \<Rightarrow> nat \<Rightarrow> (nat \<Rightarrow> real \<times> real) \<Rightarrow> eigen_error + coeffs \<times> nat" where
  "compute_b_W W theta_prepended N nr_off_diag_blks tB =
     foldE (b_W_step W theta_prepended nr_off_diag_blks tB) (pair_loop (N + 1)) (zeros, 0)"

text \<open>
  Lines 239-253: the body of the inner loop that assembles block row \<open>i\<close> of \<open>W_dual\<close>
  in \<open>W_dual_i\<close>.  \<open>W_i\<close> is block row \<open>i\<close> of \<open>W\<close>, so \<open>W_ij\<close> is read from \<open>W\<close> at rows
  \<open>4 i ..\<close> and columns \<open>4 j ..\<close>.
\<close>

definition W_dual_inner_step ::
    "matrix \<Rightarrow> matrix \<Rightarrow> nat \<Rightarrow> nat \<Rightarrow> coeffs \<times> nat \<Rightarrow> eigen_error + coeffs \<times> nat" where
  "W_dual_inner_step W b_W_dual row_idx_start j s =
     (case s of (W_dual_i, count) \<Rightarrow>
        let col_idx_start = j * 4 in
        if \<not> col_idx_start + 4 \<le> ncols W then Inl IndexOutOfRange
        else if \<not> count < nrows b_W_dual then Inl IndexOutOfRange
        else
          let W_ij = get_block row_idx_start col_idx_start (coeff W);
              y_dual_ij = (\<lambda>k. coeff b_W_dual count k);
              W_dual_ij = (\<lambda>r c. (W_ij r c - W_ij c r) / 2);
              W_dual_ij = set_block 0 3 3 1 (\<lambda>r c. y_dual_ij r) W_dual_ij;
              W_dual_ij = set_block 3 0 1 3 (\<lambda>r c. - y_dual_ij c) W_dual_ij
          in Inr (set_block 0 col_idx_start 4 4 W_dual_ij W_dual_i, count + 1))"

text \<open>
  Lines 234-256: one iteration of the outer loop.  \<open>W_dual_i\<close> is declared before the
  loop and is not cleared between iterations.
\<close>

definition W_dual_outer_step ::
    "matrix \<Rightarrow> matrix \<Rightarrow> nat \<Rightarrow> nat \<Rightarrow> nat \<Rightarrow> coeffs \<times> coeffs \<times> nat
      \<Rightarrow> eigen_error + coeffs \<times> coeffs \<times> nat" where
  "W_dual_outer_step W b_W_dual N Npm i s =
     (case s of (W_dual, W_dual_i, count) \<Rightarrow>
        let row_idx_start = i * 4 in
        if \<not> row_idx_start + 4 \<le> nrows W then Inl IndexOutOfRange
        else
          bindE (foldE (W_dual_inner_step W b_W_dual row_idx_start) [i + 1..<N + 1] (W_dual_i, count))
            (\<lambda>(W_dual_i, count).
               Inr (set_block row_idx_start 0 4 Npm W_dual_i W_dual, W_dual_i, count)))"

text \<open>
  Line 257, \<^verbatim>\<open>*W_dual = *W_dual + W_dual->transpose()\<close>: the destination is also read
  transposed.  Eigen's assignment asserts that the destination is not aliased with a
  transposed operand, so with assertions enabled the statement fails.  With assertions
  compiled out (\<^verbatim>\<open>NDEBUG\<close>) the sum is evaluated coefficient by coefficient in place,
  column by column: a coefficient on or below the diagonal reads its mirror image before
  that is overwritten, a coefficient above the diagonal reads its mirror image after it
  has been overwritten.
\<close>

definition add_transpose_in_place :: "bool \<Rightarrow> coeffs \<Rightarrow> eigen_error + coeffs" where
  "add_transpose_in_place assertions a =
     (if assertions then Inl TransposeAliasing
      else Inr (\<lambda>r c. if c \<le> r then a r c + a c r else a r c + (a c r + a r c)))"

text \<open>
  Modelled from the spec: \<^verbatim>\<open>teaser::vectorKron\<close> is declared in \<^verbatim>\<open>teaser/linalg.h\<close>,
  which is not among the sources; the specification names it the Kronecker product of
  two vectors.
\<close>

definition vectorKron :: "real list \<Rightarrow> real list \<Rightarrow> real list" where
  "vectorKron v1 v2 = concat (map (\<lambda>a. map (\<lambda>b. a * b) v2) v1)"

text \<open>
  \<^verbatim>\<open>DRSCertifier::getBlockRowSum\<close>, lines 451-466.  \<open>start_idx\<close> is \<open>row\<close> itself.  The
  block read asserts \<open>start_idx + 4 \<le> A.rows()\<close>, the product asserts that \<open>A.cols()\<close> is
  the length of \<open>vector\<close>.
\<close>

definition getBlockRowSum :: "matrix \<Rightarrow> nat \<Rightarrow> real list \<Rightarrow> eigen_error + (nat \<Rightarrow> real)" where
  "getBlockRowSum A row theta =
     (let unit = [0, 0, 0, 1];
          vector = vectorKron theta unit;
          start_idx = row
      in if \<not> start_idx + 4 \<le> nrows A then Inl IndexOutOfRange
         else if ncols A \<noteq> length vector then Inl SizeMismatch
         else Inr (\<lambda>r. \<Sum>c\<leftarrow>[0..<ncols A]. coeff A (start_idx + r) c * vector ! c))"

text \<open>
  Lines 263-274: one iteration of the loop over the diagonal blocks; the state is
  \<open>W_dual\<close> and \<open>W_diag_sum_33\<close>.
\<close>

definition diag_step ::
    "matrix \<Rightarrow> real list \<Rightarrow> nat \<Rightarrow> nat \<Rightarrow> coeffs \<times> coeffs \<Rightarrow> eigen_error + coeffs \<times> coeffs" where
  "diag_step W theta_prepended Npm i s =
     (case s of (W_dual, W_diag_sum_33) \<Rightarrow>
        let idx_start = i * 4 in
        bindE (getBlockRowSum \<lparr> nrows = Npm, ncols = Npm, coeff = W_dual \<rparr> i theta_prepended)
          (\<lambda>W_dual_row_sum_last_column.
             if \<not> (idx_start + 4 \<le> nrows W \<and> idx_start + 4 \<le> ncols W) then Inl IndexOutOfRange
             else
               let W_ii = get_block idx_start idx_start (coeff W);
                   W_ii = set_block 0 3 4 1
                            (\<lambda>r c. - (theta_prepended ! i) * W_dual_row_sum_last_column r) W_ii;
                   W_ii = set_block 3 0 1 4
                            (\<lambda>r c. - (theta_prepended ! i) * W_dual_row_sum_last_column c) W_ii
               in Inr (set_block idx_start idx_start 4 4 W_ii W_dual,
                       (\<lambda>r c. W_diag_sum_33 r c + (if r < 3 \<and> c < 3 then W_ii r c else 0)))))"

text \<open>
  \<^verbatim>\<open>DRSCertifier::getOptimalDualProjection\<close>, lines 163-286.  \<open>assertions\<close> tells
  whether \<^verbatim>\<open>eigen_assert\<close> is enabled, \<open>u\<close> holds the indeterminate contents, \<open>W_dual0\<close>
  is the matrix the caller passes for the result.

  \<^item> \<open>N = Npm / 4 - 1\<close>, and \<^verbatim>\<open>assert(theta_prepended.cols() == N + 1)\<close>.  If both sides
    are 0 (so \<open>N = -1\<close>), no pair is visited by the first loop nest; the product
    \<^verbatim>\<open>A_inv * b_W\<close> is formed, and the second loop nest starts by reading block row 0 of
    \<open>W\<close>, which has fewer than four rows.
  \<^item> \<^verbatim>\<open>A_inv * b_W\<close> asserts \<open>A_inv.cols() = b_W.rows()\<close>, and \<open>b_W\<close> has \<open>A_inv.rows()\<close> rows.
  \<^item> \<^verbatim>\<open>W_dual->setZero(); W_dual->resize(Npm, Npm)\<close>: the zeros survive the resize
    exactly when the number of coefficients does not change.
  \<^item> \<^verbatim>\<open>*W_dual -= temp_A\<close> asserts equal sizes; \<open>temp_A\<close> has \<open>4 (N + 1)\<close> rows and columns.
\<close>

definition getOptimalDualProjection ::
    "bool \<Rightarrow> indeterminate \<Rightarrow> matrix \<Rightarrow> real list \<Rightarrow> matrix \<Rightarrow> matrix \<Rightarrow> eigen_error + matrix" where
  "getOptimalDualProjection assertions u W theta_prepended A_inv W_dual0 =
     (let Npm = nrows W in
      if length theta_prepended \<noteq> Npm div 4 then Inl AssertFailed
      else if Npm div 4 = 0
      then (if ncols A_inv \<noteq> nrows A_inv then Inl SizeMismatch else Inl IndexOutOfRange)
      else
        let N = Npm div 4 - 1;
            nr_off_diag_blks = nrows A_inv
        in
        bindE (compute_b_W W theta_prepended N nr_off_diag_blks (temp_B_mem u)) (\<lambda>(b_W, count).
        if ncols A_inv \<noteq> nr_off_diag_blks then Inl SizeMismatch
        else
          let b_W_dual = \<lparr> nrows = nr_off_diag_blks, ncols = 3,
                           coeff = mat_mul (ncols A_inv) (coeff A_inv) b_W \<rparr>;
              W_dual = (if nrows W_dual0 * ncols W_dual0 = Npm * Npm then zeros else W_dual_mem u)
          in
          bindE (foldE (W_dual_outer_step W b_W_dual N Npm) [0..<N] (W_dual, zeros, 0))
            (\<lambda>(W_dual, W_dual_i, count).
          bindE (add_transpose_in_place assertions W_dual) (\<lambda>W_dual.
          bindE (foldE (diag_step W theta_prepended Npm) [0..<N + 1] (W_dual, zeros))
            (\<lambda>(W_dual, W_diag_sum_33).
             let W_diag_mean = (\<lambda>r c. if r < 3 \<and> c < 3 then W_diag_sum_33 r c / real (N + 1) else 0);
                 temp_A = fold (\<lambda>i. set_block (i * 4) (i * 4) 4 4 W_diag_mean) [0..<N + 1] zeros
             in if (N + 1) * 4 \<noteq> Npm then Inl SizeMismatch
                else Inr \<lparr> nrows = Npm, ncols = Npm,
                           coeff = (\<lambda>r c. W_dual r c - temp_A r c) \<rparr>)))))"

text \<open>
  The right-hand side that the projector's description gives for the pair \<open>(i, j)\<close>:
  \<open>[-\<theta>\<^sub>i\<theta>\<^sub>j, 1]\<close> times the stack of \<open>W[4i+3, 4i..4i+2]\<close> and \<open>W[4j+3, 4i..4i+2]\<close>, plus
  \<open>[-1, \<theta>\<^sub>i\<theta>\<^sub>j]\<close> times the stack of \<open>W[4i+3, 4j..4j+2]\<close> and \<open>W[4j+3, 4j..4j+2]\<close>.
\<close>

definition b_W_row_spec :: "coeffs \<Rightarrow> real list \<Rightarrow> nat \<Rightarrow> nat \<Rightarrow> nat \<Rightarrow> real" where
  "b_W_row_spec W th i j k =
     (let theta_ij = th ! i * th ! j in
      (- theta_ij * W (4 * i + 3) (4 * i + k) + 1 * W (4 * j + 3) (4 * i + k))
      + (- 1 * W (4 * i + 3) (4 * j + k) + theta_ij * W (4 * j + 3) (4 * j + k)))"

text \<open>
  The block-row sum that the description of \<open>getBlockRowSum\<close> gives: block row \<open>i\<close> of
  \<open>A\<close>, rows \<open>4 i .. 4 i + 3\<close>, times the Kronecker product of \<open>th\<close> with the unit vector
  \<open>e\<^sub>4\<close>.
\<close>

definition blockRowSum_spec :: "matrix \<Rightarrow> nat \<Rightarrow> real list \<Rightarrow> nat \<Rightarrow> real" where
  "blockRowSum_spec A i th r =
     (\<Sum>c\<leftarrow>[0..<ncols A]. coeff A (4 * i + r) c * vectorKron th [0, 0, 0, 1] ! c)"

section \<open>Initial guess\<close>

text \<open>
  Modelled from the spec: \<^verbatim>\<open>teaser::hatmap\<close> is declared in \<^verbatim>\<open>teaser/linalg.h\<close>, which
  is not among the sources; the specification names it the skew-symmetric hat map of a
  3-vector.
\<close>

definition hatmap :: "vec3 \<Rightarrow> coeffs" where
  "hatmap u = (case u of (a, b, c) \<Rightarrow> of_rows [[0, - c, b], [c, 0, - a], [- b, a, 0]])"

definition mat_vec3 :: "coeffs \<Rightarrow> vec3 \<Rightarrow> vec3" where
  "mat_vec3 A v =
     (A 0 0 * vec3_at v 0 + A 0 1 * vec3_at v 1 + A 0 2 * vec3_at v 2,
      A 1 0 * vec3_at v 0 + A 1 1 * vec3_at v 1 + A 1 2 * vec3_at v 2,
      A 2 0 * vec3_at v 0 + A 2 1 * vec3_at v 1 + A 2 2 * vec3_at v 2)"

definition minus3 :: "vec3 \<Rightarrow> vec3 \<Rightarrow> vec3" where
  "minus3 v w = (vec3_at v 0 - vec3_at w 0, vec3_at v 1 - vec3_at w 1, vec3_at v 2 - vec3_at w 2)"

definition dot3 :: "vec3 \<Rightarrow> vec3 \<Rightarrow> real" where
  "dot3 v w = vec3_at v 0 * vec3_at w 0 + vec3_at v 1 * vec3_at w 1 + vec3_at v 2 * vec3_at w 2"

text \<open>
  \<^verbatim>\<open>v(r, c)\<close> on a \<^verbatim>\<open>Matrix<double, 1, Dynamic>\<close>: the vector has the single row 0, and
  the access asserts \<open>r < rows()\<close> and \<open>c < cols()\<close>.
\<close>

definition row_vector_coeff :: "real list \<Rightarrow> nat \<Rightarrow> nat \<Rightarrow> eigen_error + real" where
  "row_vector_coeff v r c = (if r < 1 \<and> c < length v then Inr (v ! c) else Inl IndexOutOfRange)"

text \<open>
  Lines 315-330, the branch \<^verbatim>\<open>theta(1, i) > 0\<close>: the new value of \<open>current_block\<close>.  The
  vector part is written with \<^verbatim>\<open>topLeftCorner<3, 1>\<close> and \<^verbatim>\<open>bottomLeftCorner<1, 3>\<close>,
  that is into column 0 (rows 0 to 2) and into row 3 (columns 0 to 2).
\<close>

definition inlier_block :: "real \<Rightarrow> coeffs \<Rightarrow> vec3 \<Rightarrow> vec3 \<Rightarrow> coeffs \<Rightarrow> coeffs" where
  "inlier_block cbar2 R src_i dst_i current_block =
     (let src_i_hatmap = hatmap src_i;
          xi = mat_vec3 (transpose_c R) (minus3 dst_i (mat_vec3 R src_i));
          xi_hatmap = hatmap xi;
          current_block = set_block 3 3 1 1
            (\<lambda>r c. - 0.75 * squaredNorm xi - 0.25 * cbar2) current_block;
          current_block = set_block 0 0 3 3
            (\<lambda>r c. mat_mul 3 src_i_hatmap src_i_hatmap r c - 0.5 * dot3 src_i xi * identity r c
                    + 0.5 * mat_mul 3 xi_hatmap src_i_hatmap r c
                    + 0.5 * (vec3_at xi r * vec3_at src_i c)
                    - 0.75 * squaredNorm xi * identity r c
                    - 0.25 * cbar2 * identity r c) current_block;
          current_block = set_block 0 0 3 1
            (\<lambda>r c. - 1.5 * vec3_at (mat_vec3 xi_hatmap src_i) r) current_block;
          current_block = set_block 3 0 1 3 (\<lambda>r c. current_block c 0) current_block
      in current_block)"

text \<open>Lines 332-348, the other branch.\<close>

definition outlier_block :: "real \<Rightarrow> coeffs \<Rightarrow> vec3 \<Rightarrow> vec3 \<Rightarrow> coeffs \<Rightarrow> coeffs" where
  "outlier_block cbar2 R src_i dst_i current_block =
     (let src_i_hatmap = hatmap src_i;
          phi = mat_vec3 (transpose_c R) (minus3 dst_i (mat_vec3 R src_i));
          phi_hatmap = hatmap phi;
          current_block = set_block 3 3 1 1
            (\<lambda>r c. - 0.25 * squaredNorm phi - 0.75 * cbar2) current_block;
          current_block = set_block 0 0 3 3
            (\<lambda>r c. mat_mul 3 src_i_hatmap src_i_hatmap r c - 0.5 * dot3 src_i phi * identity r c
                    + 0.5 * mat_mul 3 phi_hatmap src_i_hatmap r c
                    + 0.5 * (vec3_at phi r * vec3_at src_i c)
                    - 0.25 * squaredNorm phi * identity r c
                    - 0.25 * cbar2 * identity r c) current_block;
          current_block = set_block 0 0 3 1
            (\<lambda>r c. - 0.5 * vec3_at (mat_vec3 phi_hatmap src_i) r) current_block;
          current_block = set_block 3 0 1 3 (\<lambda>r c. current_block c 0) current_block
      in current_block)"

text \<open>
  Lines 310-363: one iteration of the loop; the state is \<open>current_block\<close> (declared
  before the loop), \<open>topleft_block\<close> and the triplets pushed so far.  The block of
  iteration \<open>i\<close> goes, negated and column by column, to rows and columns \<open>4 i ..\<close>.
\<close>

definition lambda_step ::
    "real \<Rightarrow> coeffs \<Rightarrow> real list \<Rightarrow> vec3 list \<Rightarrow> vec3 list \<Rightarrow> nat
      \<Rightarrow> coeffs \<times> coeffs \<times> triplet list \<Rightarrow> eigen_error + coeffs \<times> coeffs \<times> triplet list" where
  "lambda_step cbar2 R theta src dst i s =
     (case s of (current_block, topleft_block, sparse_triplets) \<Rightarrow>
        bindE (col src i) (\<lambda>src_i.
        bindE (row_vector_coeff theta 1 i) (\<lambda>theta_1_i.
        bindE (col dst i) (\<lambda>dst_i.
          let current_block =
                (if theta_1_i > 0 then inlier_block cbar2 R src_i dst_i current_block
                 else outlier_block cbar2 R src_i dst_i current_block)
          in Inr (current_block,
                  (\<lambda>r c. topleft_block r c + current_block r c),
                  sparse_triplets
                  @ concat (map (\<lambda>col. map (\<lambda>row. (i * 4 + row, i * 4 + col, - current_block row col))
                                         [0..<4]) [0..<4]))))))"

text \<open>The size \<open>Npm\<close> that \<open>getLambdaGuess\<close> gives its result: \<open>4 K + 4\<close> with \<open>K = theta.size()\<close>.\<close>

definition lambda_guess_Npm :: "real list \<Rightarrow> nat" where
  "lambda_guess_Npm theta = 4 * length theta + 4"

text \<open>\<^verbatim>\<open>DRSCertifier::getLambdaGuess\<close>, lines 288-374.\<close>

definition getLambdaGuess ::
    "real \<Rightarrow> coeffs \<Rightarrow> real list \<Rightarrow> vec3 list \<Rightarrow> vec3 list \<Rightarrow> eigen_error + matrix" where
  "getLambdaGuess cbar2 R theta src dst =
     (let K = length theta;
          Npm = lambda_guess_Npm theta
      in bindE (foldE (lambda_step cbar2 R theta src dst) [0..<K] (zeros, zeros, []))
           (\<lambda>(current_block, topleft_block, sparse_triplets).
              setFromTriplets Npm Npm
                (sparse_triplets
                 @ concat (map (\<lambda>col. map (\<lambda>row. (row, col, topleft_block row col)) [0..<4]) [0..<4]))))"

section \<open>Certifier\<close>

text \<open>
  \<^verbatim>\<open>v << a, b, ...\<close> on a row vector with \<open>cols\<close> coefficients: the comma initializer
  asserts that the vector is not empty, and that it is filled exactly.
\<close>

definition comma_init_row :: "nat \<Rightarrow> real list \<Rightarrow> eigen_error + real list" where
  "comma_init_row cols vals =
     (if cols = 0 then Inl CommaInitEmpty
      else if length vals \<noteq> cols then Inl CommaInitSize
      else Inr vals)"

text \<open>
  Difference and product of dynamically sized matrices; Eigen asserts that the sizes
  fit.  A vector of \<open>n\<close> coefficients is a matrix with \<open>n\<close> rows and one column.
\<close>

definition mat_minus :: "matrix \<Rightarrow> matrix \<Rightarrow> eigen_error + matrix" where
  "mat_minus A B =
     (if nrows A = nrows B \<and> ncols A = ncols B
      then Inr \<lparr> nrows = nrows A, ncols = ncols A, coeff = (\<lambda>r c. coeff A r c - coeff B r c) \<rparr>
      else Inl SizeMismatch)"

definition mat_times :: "matrix \<Rightarrow> matrix \<Rightarrow> eigen_error + matrix" where
  "mat_times A B =
     (if ncols A = nrows B
      then Inr \<lparr> nrows = nrows A, ncols = ncols B, coeff = mat_mul (ncols A) (coeff A) (coeff B) \<rparr>
      else Inl SizeMismatch)"

definition transpose_m :: "matrix \<Rightarrow> matrix" where
  "transpose_m A = \<lparr> nrows = ncols A, ncols = nrows A, coeff = transpose_c (coeff A) \<rparr>"

definition column_vector :: "real list \<Rightarrow> matrix" where
  "column_vector v = \<lparr> nrows = length v, ncols = 1, coeff = (\<lambda>r c. v ! r) \<rparr>"

text \<open>
  What \<open>certify\<close> has computed when it reaches its end (the source has no \<^verbatim>\<open>return\<close>
  statement, and the loop at lines 68-70 has an empty body).
\<close>

record certify_locals =
  M_residual :: matrix
  exceeded_maxiters :: bool
  suboptim_traj :: "real list"

text \<open>
  \<^verbatim>\<open>DRSCertifier::certify\<close>, lines 12-72.  \<open>cbar2\<close> is the member \<^verbatim>\<open>cbar2_\<close>;
  \<open>to_quaternion\<close> stands for Eigen's conversion of a rotation matrix to a quaternion
  followed by \<^verbatim>\<open>normalize()\<close>.  \<^verbatim>\<open>theta_prepended\<close> is declared at line 21 without a
  size, so it has 0 columns when line 22 streams \<open>1\<close> and the entries of \<open>theta\<close> (cast
  from \<^verbatim>\<open>bool\<close>) into it.
\<close>

definition certify ::
    "real \<Rightarrow> (coeffs \<Rightarrow> quaternion) \<Rightarrow> indeterminate \<Rightarrow> coeffs \<Rightarrow> vec3 list \<Rightarrow> vec3 list \<Rightarrow> bool list
      \<Rightarrow> eigen_error + certify_locals" where
  "certify cbar2 to_quaternion u R_solution src dst theta =
     (let N = length src;
          Npm = 4 + 4 * N
      in
      bindE (comma_init_row 0 (1 # map of_bool theta)) (\<lambda>theta_prepended.
      bindE (getLinearProjection theta_prepended) (\<lambda>inverse_map.
      bindE (getQCost cbar2 src dst) (\<lambda>Q_cost.
        let q_solution = to_quaternion R_solution;
            q_solution_vec = [qx q_solution, qy q_solution, qz q_solution, qw q_solution];
            x = column_vector (vectorKron theta_prepended q_solution_vec);
            D_omega = getBlockDiagOmega Npm q_solution
        in
        bindE (mat_times Q_cost D_omega) (\<lambda>QD.
        bindE (mat_times (transpose_m D_omega) QD) (\<lambda>Q_bar.
        bindE (mat_times (transpose_m D_omega) x) (\<lambda>x_bar.
          let J_bar = \<lparr> nrows = Npm, ncols = Npm,
                        coeff = set_block 0 0 4 4 identity (J_bar_mem u) \<rparr>
          in
          bindE (mat_times Q_cost x) (\<lambda>Qx.
          bindE (mat_times (transpose_m x) Qx) (\<lambda>xQx.
            let mu = coeff xQx 0 0 in
            bindE (getLambdaGuess cbar2 R_solution theta_prepended src dst) (\<lambda>lambda_bar_init.
            bindE (mat_minus Q_bar (J_bar \<lparr> coeff := (\<lambda>r c. mu * coeff J_bar r c) \<rparr>)) (\<lambda>M.
            bindE (mat_minus M lambda_bar_init) (\<lambda>M.
              Inr \<lparr> M_residual = M, exceeded_maxiters = False, suboptim_traj = [] \<rparr>))))))))))))"

section \<open>Properties of the quaternion embedding\<close>

text \<open>
  C6 (fails on the code).  For the unit quaternion \<open>q = (x, y, z, w) = (1, 0, 0, 0)\<close> the
  matrix of \<open>getOmega1\<close> has a single nonzero coefficient, in row 0 and column 3: the
  coefficients (1,2), (2,1) and (3,0) read \<open>q.z()\<close> where the left-multiplication matrix
  has \<open>q.x()\<close>.  So the coefficient (0,0) of \<open>D\<^sup>T D\<close> is 0 and not 1, for \<open>D\<close> built by
  \<open>getBlockDiagOmega\<close> with \<open>Npm = 8\<close>: \<open>D\<close> is not orthogonal, and since its first
  column is zero it is not invertible either.
\<close>

theorem getBlockDiagOmega_not_orthogonal:
  "squaredNorm_q \<lparr>qx = 1, qy = 0, qz = 0, qw = 0\<rparr> = 1 \<and>
   (let D = coeff (getBlockDiagOmega 8 \<lparr>qx = 1, qy = 0, qz = 0, qw = 0\<rparr>)
    in mat_mul 8 (transpose_c D) D 0 0 = 0 \<and> (\<forall>r. D r 0 = 0) \<and> identity 0 0 = (1::real))"
  by (simp add: squaredNorm_q_def getBlockDiagOmega_def getOmega1_def of_rows_def mat_mul_def
      transpose_c_def set_block_def zeros_def identity_def Let_def upt_rec [of 0 "numeral n" for n]
      upt_rec [of "Suc n" for n] nth_Cons')

section \<open>Properties of the inverse map\<close>

text \<open>The integer quotient \<^verbatim>\<open>1 / (2 * N0 + 6)\<close> is zero for every size of the input.\<close>

lemma sdiv_one_zero: "1 sdiv (2 * (int n - 1) + 6) = 0"
  by (simp add: signed_divide_int_def)

lemma sum_list_countdown: "2 * (\<Sum>i\<leftarrow>[0..<m]. m - i) = m * (m + 1)"
proof -
  have "(\<Sum>i\<leftarrow>[0..<m]. m - i) = (\<Sum>i\<in>{0..<m}. m - i)"
    by (simp add: interv_sum_list_conv_sum_set_nat)
  also have "\<dots> = (\<Sum>i\<in>{0..<m}. Suc i)"
    by (rule sum.reindex_bij_witness [where i = "\<lambda>i. m - Suc i" and j = "\<lambda>i. m - Suc i"]) auto
  finally have "(\<Sum>i\<leftarrow>[0..<m]. m - i) = (\<Sum>i\<in>{0..<m}. Suc i)" .
  moreover have "2 * (\<Sum>i\<in>{0..<m}. Suc i) = m * (m + 1)"
    by (induction m) simp_all
  ultimately show ?thesis by simp
qed

lemma length_pair_loop: "length (pair_loop N) = N * (N - 1) div 2"
proof -
  have "length (pair_loop N) = (\<Sum>i\<leftarrow>[0..<N - 1]. (N - 1) - i)"
    by (simp add: pair_loop_def length_concat comp_def)
  then have "2 * length (pair_loop N) = (N - 1) * N"
    using sum_list_countdown [of "N - 1"] by (cases N) simp_all
  then show ?thesis by (simp add: mult.commute)
qed

lemma mat2vec_step_pair:
  "mat2vec_step (i, j) (m, c) = (\<lambda>a b. if a = i \<and> b = j then c else m a b, c + 1)"
  by (simp add: mat2vec_step_def)

lemma mat2vec_fold_bound:
  "fold mat2vec_step ps (m0, c0) = (m', c')
   \<Longrightarrow> c' = c0 + length ps \<and> (\<forall>a b. m' a b = m0 a b \<or> m' a b < c0 + length ps)"
proof (induction ps arbitrary: m0 c0)
  case Nil
  then show ?case by simp
next
  case (Cons p ps)
  obtain i j where p: "p = (i, j)" by (cases p)
  from Cons.prems have
    "fold mat2vec_step ps (\<lambda>a b. if a = i \<and> b = j then c0 else m0 a b, c0 + 1) = (m', c')"
    by (simp add: p mat2vec_step_pair)
  from Cons.IH [OF this] have c: "c' = c0 + 1 + length ps"
    and m: "\<And>a b. m' a b = (if a = i \<and> b = j then c0 else m0 a b) \<or> m' a b < c0 + 1 + length ps"
    by auto
  show ?case
  proof (intro conjI allI)
    show "c' = c0 + length (p # ps)" using c by simp
    fix a b
    show "m' a b = m0 a b \<or> m' a b < c0 + length (p # ps)"
      using m [of a b] by (auto split: if_splits)
  qed
qed

lemma build_mat2vec_bound:
  assumes "pair_loop N \<noteq> []"
  shows "build_mat2vec N a b < length (pair_loop N)"
proof -
  obtain m' c' where f: "fold mat2vec_step (pair_loop N) (\<lambda>i j. 0, 0) = (m', c')"
    by (cases "fold mat2vec_step (pair_loop N) (\<lambda>i j. 0, 0)") auto
  from mat2vec_fold_bound [OF f] assms have "m' a b < length (pair_loop N)"
    by (metis add_0 length_greater_0_conv)
  then show ?thesis by (simp add: build_mat2vec_def f)
qed

lemma column_triplets_ok:
  assumes "\<And>a b. mat2vec a b < n" and "(r, c, v) \<in> set (column_triplets 0 th mat2vec N i j)"
  shows "r < n \<and> c < n \<and> v = 0"
  using assms by (auto simp: column_triplets_def Let_def split: if_splits)

lemma sum_list_zero_values:
  assumes "\<And>r c v. (r, c, v) \<in> set ts \<Longrightarrow> v = 0"
  shows "sum_list (map (\<lambda>(r', c', v). v) (filter P ts)) = (0::real)"
proof -
  have eq: "map (\<lambda>(r', c', v). v) (filter P ts) = map (\<lambda>x. 0) (filter P ts)"
    by (rule map_cong) (use assms in auto)
  show ?thesis unfolding eq by simp
qed

lemma getLinearProjection_zero:
  "\<exists>A. getLinearProjection th = Inr A
     \<and> nrows A = length th * (length th - 1) div 2
     \<and> ncols A = length th * (length th - 1) div 2
     \<and> (\<forall>r c. coeff A r c = 0)"
proof -
  define N where "N = length th"
  define n where "n = N * (N - 1) div 2"
  define ts where "ts = concat (map (\<lambda>(i, j). column_triplets 0 th (build_mat2vec N) N i j) (pair_loop N))
            @ map (\<lambda>i. (i, i, 0::real)) [0..<n]"
  have y: "1 sdiv (2 * (int (length th) - 1) + 6) = 0" by (rule sdiv_one_zero)
  have glp: "getLinearProjection th = setFromTriplets n n ts"
    unfolding getLinearProjection_def Let_def y N_def n_def ts_def by simp
  have ok: "r < n \<and> c < n \<and> v = 0" if "(r, c, v) \<in> set ts" for r c v
  proof -
    from that consider (col) i j where "(i, j) \<in> set (pair_loop N)"
        "(r, c, v) \<in> set (column_triplets 0 th (build_mat2vec N) N i j)"
      | (diag) "r < n" "c = r" "v = 0"
      by (auto simp: ts_def)
    then show ?thesis
    proof cases
      case col
      then have "pair_loop N \<noteq> []" by auto
      then have "\<And>a b. build_mat2vec N a b < n"
        using build_mat2vec_bound [of N] by (simp add: length_pair_loop n_def)
      from column_triplets_ok [OF this col(2)] show ?thesis .
    next
      case diag
      then show ?thesis by simp
    qed
  qed
  have all: "list_all (\<lambda>(r, c, v). r < n \<and> c < n) ts"
    using ok by (auto simp: list_all_iff)
  have zero: "sum_list (map (\<lambda>(r', c', v). v) (filter P ts)) = 0" for P
    by (rule sum_list_zero_values) (use ok in blast)
  show ?thesis
    unfolding glp setFromTriplets_def using all by (simp add: zero n_def N_def)
qed

text \<open>
  C1 (fails on the code).  Whatever the vector \<open>th\<close>, \<open>getLinearProjection th\<close> returns
  the zero matrix of size \<open>M \<times> M\<close>, \<open>M = length th * (length th - 1) / 2\<close>: \<open>y\<close> is the
  integer quotient \<^verbatim>\<open>1 / (2 * N0 + 6)\<close>, which is 0, so the diagonal value
  \<open>x = (N0 + 1) * y\<close> and every off-diagonal value \<open>\<plusminus> y * th\<^sub>a * th\<^sub>b\<close> are 0.  In
  particular the diagonal entries are not a nonzero constant and no off-diagonal entry
  is \<open>\<plusminus> th\<^sub>a * th\<^sub>b / (2 N + 6)\<close>.
\<close>

theorem getLinearProjection_all_zero:
  "\<exists>A. getLinearProjection th = Inr A
     \<and> nrows A = length th * (length th - 1) div 2
     \<and> ncols A = length th * (length th - 1) div 2
     \<and> (\<forall>r c. coeff A r c = 0)"
  by (rule getLinearProjection_zero)

section \<open>Properties of the cost matrix\<close>

text \<open>Each row of the table, read as a \<open>4 \<times> 4\<close> matrix, is symmetric; hence so is \<open>P_k\<close>.\<close>

lemma P_table_sym_all:
  "list_all (\<lambda>m. list_all (\<lambda>r. list_all (\<lambda>c. P_table m (r + 4 * c) = P_table m (c + 4 * r)) [0..<4]) [0..<4]) [0..<9]"
  by code_simp

lemma P_table_sym: "r < 4 \<Longrightarrow> c < 4 \<Longrightarrow> m < 9 \<Longrightarrow> P_table m (r + 4 * c) = P_table m (c + 4 * r)"
  using P_table_sym_all by (simp add: list_all_iff)

lemma compute_P_k_sym:
  assumes "r < 4" "c < 4"
  shows "compute_P_k a b r c = compute_P_k a b c r"
proof -
  have eq: "map (\<lambda>m. P_table m (r + 4 * c) * f m) [0..<9] = map (\<lambda>m. P_table m (c + 4 * r) * f m) [0..<9]"
    for f :: "nat \<Rightarrow> real"
    by (rule map_cong) (use assms in \<open>simp_all add: P_table_sym\<close>)
  show ?thesis unfolding compute_P_k_def Let_def eq ..
qed

lemma Q1_step_sym0:
  assumes "sym0 Q1" "k < length v1" "k < length v2"
  shows "\<exists>Q1'. Q1_step cbar2 v1 v2 k Q1 = Inr Q1' \<and> sym0 Q1'"
proof -
  have "Q1_step cbar2 v1 v2 k Q1 = Inr (
       let start_idx = k * 4 + 4;
           P_k = compute_P_k (v1 ! k) (v2 ! k);
           ck = 0.5 * (squaredNorm (v1 ! k) + squaredNorm (v2 ! k) - cbar2);
           Q1a = set_block 0 start_idx 4 4
                   (\<lambda>r c. get_block 0 start_idx Q1 r c - 0.5 * P_k r c + ck / 2 * identity r c) Q1;
           Q1b = set_block start_idx 0 4 4
                   (\<lambda>r c. get_block start_idx 0 Q1a r c - 0.5 * P_k r c + ck / 2 * identity r c) Q1a
       in Q1b)" (is "_ = Inr ?Q")
    using assms(2,3) by (simp add: Q1_step_def col_def bindE_def Let_def)
  moreover have "sym0 ?Q"
    using assms(1) unfolding sym0_def Let_def set_block_def get_block_def identity_def
    by (auto simp: compute_P_k_sym)
  ultimately show ?thesis by blast
qed

lemma Q2_step_sym0:
  assumes "sym0 Q2" "k < length v1" "k < length v2"
  shows "\<exists>Q2'. Q2_step cbar2 v1 v2 k Q2 = Inr Q2' \<and> sym0 Q2'"
proof -
  have "Q2_step cbar2 v1 v2 k Q2 = Inr (
       let start_idx = k * 4 + 4;
           P_k = compute_P_k (v1 ! k) (v2 ! k);
           ck = 0.5 * (squaredNorm (v1 ! k) + squaredNorm (v2 ! k) + cbar2)
       in set_block start_idx start_idx 4 4
                 (\<lambda>r c. get_block start_idx start_idx Q2 r c - P_k r c + ck * identity r c) Q2)"
    (is "_ = Inr ?Q")
    using assms(2,3) by (simp add: Q2_step_def col_def bindE_def Let_def)
  moreover have "sym0 ?Q"
    using assms(1) unfolding sym0_def Let_def set_block_def get_block_def identity_def
    by (auto simp: compute_P_k_sym)
  ultimately show ?thesis by blast
qed

lemma foldE_invariant:
  assumes "I s" and "\<And>x s. x \<in> set xs \<Longrightarrow> I s \<Longrightarrow> \<exists>s'. f x s = Inr s' \<and> I s'"
  shows "\<exists>s'. foldE f xs s = Inr s' \<and> I s'"
  using assms
proof (induction xs arbitrary: s)
  case Nil
  then show ?case by simp
next
  case (Cons x xs)
  from Cons.prems obtain s1 where s1: "f x s = Inr s1" "I s1" by (meson list.set_intros(1))
  have "\<exists>s'. foldE f xs s1 = Inr s' \<and> I s'"
    by (rule Cons.IH [OF s1(2)]) (use Cons.prems(2) in auto)
  then show ?case by (simp add: s1)
qed

lemma sym0_zeros: "sym0 zeros"
  by (simp add: sym0_def zeros_def)

text \<open>The cost matrix of one correspondence, \<open>v1 = (1, 2, 3)\<close>, \<open>v2 = (0, 1, 0)\<close>, \<open>cbar2 = 1\<close>.\<close>

lemma getQCost_example:
  "\<exists>Q. getQCost 1 [(1, 2, 3)] [(0, 1, 0)] = Inr Q \<and> coeff Q 0 5 = - 1 / 2 \<and> coeff Q 4 4 = 10"
  by (simp add: getQCost_def Q1_step_def Q2_step_def col_def bindE_def Let_def compute_P_k_def
      P_table_def of_rows_def set_block_def get_block_def identity_def zeros_def vec3_at_def
      squaredNorm_def upt_rec [of _ "numeral n" for n] upt_rec [of 0 "Suc 0"])

text \<open>
  C4.  For point sets \<open>v1\<close>, \<open>v2\<close> of a common length \<open>N\<close> (any \<open>N\<close>, so also every
  \<open>N \<ge> 1\<close>), \<open>getQCost\<close> returns a matrix \<open>Q\<close> of size \<open>(4 + 4 N) \<times> (4 + 4 N)\<close> with
  \<open>Q r c = Q c r\<close> for all \<open>r\<close>, \<open>c\<close>, and \<open>Q r c = 0\<close> on the block (0,0), that is for
  \<open>r < 4\<close> and \<open>c < 4\<close>.  The source has no symmetrization step and neither has the
  model: \<open>Q\<close> is the sum \<open>Q1 + Q2\<close> of the two loops' results.  Mirrored coefficients
  are values of the same expression on the same operands, because every row of the
  table is a symmetric \<open>4 \<times> 4\<close> matrix and the blocks \<open>(0, k)\<close> and \<open>(k, 0)\<close> receive the
  same matrix.
\<close>

theorem getQCost_symmetric_zero_block:
  assumes "length v2 = length v1"
  shows "\<exists>Q. getQCost cbar2 v1 v2 = Inr Q
           \<and> nrows Q = 4 + 4 * length v1 \<and> ncols Q = 4 + 4 * length v1
           \<and> (\<forall>r c. coeff Q r c = coeff Q c r)
           \<and> (\<forall>r c. r < 4 \<and> c < 4 \<longrightarrow> coeff Q r c = 0)"
proof -
  obtain Q1 where Q1: "foldE (Q1_step cbar2 v1 v2) [0..<length v1] zeros = Inr Q1" "sym0 Q1"
    using foldE_invariant [of sym0 zeros "[0..<length v1]" "Q1_step cbar2 v1 v2"]
      Q1_step_sym0 [of _ _ v1 v2 cbar2] sym0_zeros assms by auto
  obtain Q2 where Q2: "foldE (Q2_step cbar2 v1 v2) [0..<length v1] zeros = Inr Q2" "sym0 Q2"
    using foldE_invariant [of sym0 zeros "[0..<length v1]" "Q2_step cbar2 v1 v2"]
      Q2_step_sym0 [of _ _ v1 v2 cbar2] sym0_zeros assms by auto
  have "getQCost cbar2 v1 v2 =
      Inr \<lparr> nrows = 4 + 4 * length v1, ncols = 4 + 4 * length v1, coeff = (\<lambda>r c. Q1 r c + Q2 r c) \<rparr>"
    by (simp add: getQCost_def Let_def bindE_def Q1 Q2)
  moreover have "Q1 r c + Q2 r c = Q1 c r + Q2 c r" for r c
    using Q1(2) Q2(2) by (simp add: sym0_def)
  moreover have "r < 4 \<and> c < 4 \<longrightarrow> Q1 r c + Q2 r c = 0" for r c
    using Q1(2) Q2(2) by (simp add: sym0_def)
  ultimately show ?thesis by simp
qed

theorem getQCost_symmetric_zero_block_witness:
  "length [(0, 1, 0) :: vec3] = length [(1, 2, 3) :: vec3] \<and>
   (\<exists>Q. getQCost 1 [(1, 2, 3)] [(0, 1, 0)] = Inr Q \<and> nrows Q = 8 \<and> ncols Q = 8
        \<and> coeff Q 0 5 = - 1 / 2 \<and> coeff Q 5 0 = - 1 / 2 \<and> coeff Q 4 4 = 10 \<and> coeff Q 2 3 = 0)"
proof -
  have len: "length [(0, 1, 0) :: vec3] = length [(1, 2, 3) :: vec3]"
    by simp
  from getQCost_symmetric_zero_block [OF len, of 1] obtain Q where
    Q: "getQCost 1 [(1, 2, 3)] [(0, 1, 0)] = Inr Q" "nrows Q = 8" "ncols Q = 8"
      "\<And>r c. coeff Q r c = coeff Q c r" "coeff Q 2 3 = 0"
    by auto
  from getQCost_example Q(1) have "coeff Q 0 5 = - 1 / 2" "coeff Q 4 4 = 10"
    by auto
  moreover from this Q(4) [of 5 0] have "coeff Q 5 0 = - 1 / 2"
    by simp
  ultimately show ?thesis
    using len Q(1,2,3,5) by blast
qed

section \<open>Properties of the projector\<close>

lemma pair_loop_2: "pair_loop 2 = [(0, 1)]" "pair_loop (Suc (Suc 0)) = [(0, Suc 0)]"
  by code_simp+

text \<open>
  What the loop body writes into row \<open>count\<close> of \<open>b_W\<close> for a pair \<open>i < j\<close> inside \<open>W\<close>: only
  row \<open>4 i + 3\<close> of \<open>W\<close> is read, with the weights \<open>-1\<close> and \<open>\<theta>\<^sub>i\<theta>\<^sub>j\<close> on the columns of block
  \<open>i\<close> and with the two indeterminate weights of \<open>temp_B\<close> on the columns of block \<open>j\<close>.
\<close>

lemma b_W_step_row:
  assumes "i * 4 + 3 < nrows W" "j * 4 + 3 \<le> ncols W" "i < j" "count < nr"
  shows "\<exists>b'. b_W_step W th nr tB (i, j) (b_W, count) = Inr (b', count + 1)
           \<and> (\<forall>k<3. b' count k =
                 (- 1 * coeff W (i * 4 + 3) (i * 4 + k) + th ! i * th ! j * coeff W (i * 4 + 3) (i * 4 + k))
                 + (fst (tB count) * coeff W (i * 4 + 3) (j * 4 + k)
                    + snd (tB count) * coeff W (i * 4 + 3) (j * 4 + k)))"
  using assms by (simp add: b_W_step_def block_1x3_def bindE_def Let_def)

text \<open>
  C5 (fails on the code).  Take \<open>N = 1\<close>, \<open>th = [1, 1]\<close> and the symmetric \<open>8 \<times> 8\<close>
  matrix \<open>W\<close> whose only nonzero coefficients are \<open>W 7 0 = W 0 7 = 1\<close>.  For the pair
  \<open>(0, 1)\<close> the described right-hand side has first component
  \<open>-W 3 0 + W 7 0 - W 3 4 + W 7 4 = 1\<close>.  The code computes 0, whatever \<open>temp_B\<close> holds:
  \<open>temp_A\<close> has been overwritten by \<open>[-1, \<theta>\<^sub>i\<^sub>j]\<close>, \<open>temp_B\<close> is never assigned, and
  \<open>col_idx_end\<close> is \<open>4 i + 3\<close>, so that row \<open>4 j + 3 = 7\<close> of \<open>W\<close> is never read.
\<close>

theorem compute_b_W_differs_from_description:
  "(\<exists>b. compute_b_W \<lparr> nrows = 8, ncols = 8,
                        coeff = (\<lambda>r c. if (r = 7 \<and> c = 0) \<or> (r = 0 \<and> c = 7) then 1 else 0) \<rparr>
            [1, 1] 1 1 tB = Inr (b, 1) \<and> b 0 0 = 0)
   \<and> b_W_row_spec (\<lambda>r c. if (r = 7 \<and> c = 0) \<or> (r = 0 \<and> c = 7) then 1 else 0) [1, 1] 0 1 0 = 1"
  by (simp add: compute_b_W_def pair_loop_2 b_W_step_def block_1x3_def bindE_def Let_def
      b_W_row_spec_def zeros_def)

text \<open>
  C8 (fails on the code).  Take the \<open>8 \<times> 8\<close> matrix \<open>A\<close> whose only nonzero coefficient
  is \<open>A 1 3 = 1\<close>, block index \<open>i = 1\<close> and \<open>th = [1, 1]\<close>.  Block row 1 of \<open>A\<close> (rows 4 to
  7) is zero, so the described sum is the zero vector.  \<open>getBlockRowSum\<close> reads the four
  rows that start at row \<open>i = 1\<close> (rows 1 to 4) and returns a vector whose first
  component is \<open>A 1 3 * th\<^sub>0 = 1\<close>.
\<close>

theorem getBlockRowSum_differs_from_description:
  "(\<exists>s. getBlockRowSum \<lparr> nrows = 8, ncols = 8, coeff = (\<lambda>r c. if r = 1 \<and> c = 3 then 1 else 0) \<rparr>
            1 [1, 1] = Inr s \<and> s 0 = 1)
   \<and> blockRowSum_spec \<lparr> nrows = 8, ncols = 8, coeff = (\<lambda>r c. if r = 1 \<and> c = 3 then 1 else 0) \<rparr>
        1 [1, 1] 0 = 0"
  by (simp add: getBlockRowSum_def blockRowSum_spec_def vectorKron_def Let_def
      upt_rec [of _ "numeral n" for n] nth_Cons')

text \<open>
  The diagonal step does with the vector \<open>s\<close> that \<open>getBlockRowSum\<close> returns what its
  description says: the last column and the last row of diagonal block \<open>i\<close> of \<open>W_dual\<close>
  become \<open>- th\<^sub>i * s\<close>.
\<close>

lemma diag_step_overwrites:
  assumes "getBlockRowSum \<lparr> nrows = Npm, ncols = Npm, coeff = W_dual \<rparr> i th = Inr s"
    and "i * 4 + 4 \<le> nrows W" "i * 4 + 4 \<le> ncols W"
  shows "\<exists>W_dual' S'. diag_step W th Npm i (W_dual, S) = Inr (W_dual', S')
           \<and> (\<forall>r<4. W_dual' (i * 4 + r) (i * 4 + 3) = - (th ! i) * s r)
           \<and> (\<forall>c<4. W_dual' (i * 4 + 3) (i * 4 + c) = - (th ! i) * s c)"
proof -
  have three: "r = 3" if "3 \<le> r" "r < 4" for r :: nat
    using that by arith
  show ?thesis
    using assms by (auto simp: diag_step_def bindE_def Let_def set_block_def dest: three)
qed

text \<open>
  The projector on \<open>12 \<times> 12\<close> matrices (\<open>N = 2\<close>), with the zero inverse map and a result
  matrix that already has its size.
\<close>

lemma loops_3:
  "pair_loop 3 = [(0, 1), (0, 2), (1, 2)]"
  "[0..<2] = [0, 1]" "[0..<3] = [0, 1, 2]" "[1..<3] = [1, 2]" "[Suc 0..<3] = [1, 2]" "[2..<3] = [2]"
  "[3..<3] = []"
  by code_simp+

lemma b_W_ok:
  assumes "nrows (W::matrix) = 12" "ncols W = 12"
  shows "\<exists>b. compute_b_W W [1, 1, 1] 2 3 tB = Inr (b, 3)"
  using assms
  by (simp add: compute_b_W_def loops_3 b_W_step_def block_1x3_def bindE_def Let_def)

lemma outer_ok:
  assumes "nrows (W::matrix) = 12" "ncols W = 12" "nrows (bd::matrix) = 3" "\<And>r c. coeff bd r c = 0"
  shows "\<exists>a ai. foldE (W_dual_outer_step W bd 2 12) [0..<2] (zeros, zeros, 0) = Inr (a, ai, 3)
          \<and> a 0 5 = (coeff W 0 5 - coeff W 1 4) / 2 \<and> a 5 0 = 0
          \<and> a 1 4 = (coeff W 1 4 - coeff W 0 5) / 2 \<and> a 4 1 = 0"
  using assms
  by (simp add: W_dual_outer_step_def W_dual_inner_step_def upt_rec [of _ "numeral n" for n]
      bindE_def Let_def set_block_def get_block_def zeros_def)

lemma diag_ok:
  assumes "nrows (W::matrix) = 12" "ncols W = 12"
  shows "\<exists>d s. foldE (diag_step W [1, 1, 1] 12) [0..<3] (a, zeros) = Inr (d, s)
          \<and> d 0 5 = a 0 5 \<and> d 1 4 = a 1 4"
  using assms
  by (simp add: diag_step_def getBlockRowSum_def vectorKron_def bindE_def Let_def
      set_block_def upt_rec [of _ "numeral n" for n])

lemma temp_A_off_diag:
  "fold (\<lambda>i. set_block (i * 4) (i * 4) 4 4 M) [0..<3] zeros 0 5 = 0"
  "fold (\<lambda>i. set_block (i * 4) (i * 4) 4 4 M) [0..<3] zeros (Suc 0) 4 = 0"
  by (simp_all add: set_block_def zeros_def upt_rec [of _ "numeral n" for n])

lemma projection_12:
  assumes W: "nrows (W::matrix) = 12" "ncols W = 12"
    and A: "nrows (A::matrix) = 3" "ncols A = 3" "\<And>r c. coeff A r c = 0"
    and W0: "nrows (W0::matrix) = 12" "ncols W0 = 12"
  shows "getOptimalDualProjection True u W [1, 1, 1] A W0 = Inl TransposeAliasing"
    and "\<exists>P. getOptimalDualProjection False u W [1, 1, 1] A W0 = Inr P
           \<and> nrows P = 12 \<and> ncols P = 12
           \<and> coeff P 0 5 = coeff W 0 5 - coeff W 1 4
           \<and> coeff P 1 4 = coeff W 1 4 - coeff W 0 5"
proof -
  obtain b where b: "compute_b_W W [1, 1, 1] 2 3 (temp_B_mem u) = Inr (b, 3)"
    using b_W_ok [OF W] by blast
  define bd where "bd = \<lparr> nrows = 3, ncols = 3, coeff = mat_mul 3 (coeff A) b \<rparr>"
  have bd: "nrows bd = 3" "\<And>r c. coeff bd r c = 0"
    by (simp_all add: bd_def mat_mul_def A)
  obtain a ai where a: "foldE (W_dual_outer_step W bd 2 12) [0..<2] (zeros, zeros, 0) = Inr (a, ai, 3)"
    "a 0 5 = (coeff W 0 5 - coeff W 1 4) / 2" "a 5 0 = 0"
    "a 1 4 = (coeff W 1 4 - coeff W 0 5) / 2" "a 4 1 = 0"
    using outer_ok [OF W bd] by blast
  show "getOptimalDualProjection True u W [1, 1, 1] A W0 = Inl TransposeAliasing"
    by (simp add: getOptimalDualProjection_def W A W0 Let_def b bindE_def
        bd_def [symmetric] a add_transpose_in_place_def)
  define a' where "a' = (\<lambda>r c. if c \<le> r then a r c + a c r else a r c + (a c r + a r c))"
  obtain d s where d: "foldE (diag_step W [1, 1, 1] 12) [0..<3] (a', zeros) = Inr (d, s)"
    "d 0 5 = a' 0 5" "d 1 4 = a' 1 4"
    using diag_ok [OF W] by blast
  show "\<exists>P. getOptimalDualProjection False u W [1, 1, 1] A W0 = Inr P
           \<and> nrows P = 12 \<and> ncols P = 12
           \<and> coeff P 0 5 = coeff W 0 5 - coeff W 1 4
           \<and> coeff P 1 4 = coeff W 1 4 - coeff W 0 5"
    by (simp add: getOptimalDualProjection_def W A W0 Let_def b bindE_def
        bd_def [symmetric] a add_transpose_in_place_def a'_def [symmetric] d temp_A_off_diag)
      (use d(2,3) a(2-5) in \<open>simp add: a'_def\<close>)
qed

text \<open>
  With assertions enabled the projector returns a matrix for no input at all: whatever
  precedes line 257 either fails or reaches the aliased assignment.
\<close>

lemma getOptimalDualProjection_checked_fails:
  "getOptimalDualProjection True u W th A W0 \<noteq> Inr P"
  by (auto simp: getOptimalDualProjection_def bindE_def add_transpose_in_place_def Let_def
      split: sum.splits prod.splits if_splits)

text \<open>
  C2 (fails on the code).  Take \<open>N = 2\<close>, \<open>th = [1, 1, 1]\<close>, \<open>A_inv\<close> the result of
  \<open>getLinearProjection th\<close>, and the symmetric \<open>12 \<times> 12\<close> matrix \<open>W\<close> whose only nonzero
  coefficients are \<open>W 0 5 = W 5 0 = 1\<close>.  With assertions enabled the projection does not
  return a matrix: it stops at the aliased assignment of line 257.  With assertions
  compiled out it returns a matrix \<open>P\<close> with \<open>P 0 5 = 1\<close>, and projecting \<open>P\<close> again gives
  \<open>PP\<close> with \<open>PP 0 5 = 2\<close>: the in-place sum doubles the blocks above the diagonal at
  every application.  Both hold whatever the indeterminate contents \<open>u\<close>, \<open>u'\<close> are.
\<close>

theorem getOptimalDualProjection_not_idempotent:
  "\<exists>A. getLinearProjection [1, 1, 1] = Inr A \<and>
     (let W = \<lparr> nrows = 12, ncols = 12,
                coeff = (\<lambda>r c. if (r = 0 \<and> c = 5) \<or> (r = 5 \<and> c = 0) then 1 else 0) \<rparr>;
          W_dual0 = \<lparr> nrows = 12, ncols = 12, coeff = zeros \<rparr>
      in (\<forall>r c. coeff W r c = coeff W c r) \<and>
         getOptimalDualProjection True u W [1, 1, 1] A W_dual0 = Inl TransposeAliasing \<and>
         (\<exists>P PP. getOptimalDualProjection False u W [1, 1, 1] A W_dual0 = Inr P \<and>
                 getOptimalDualProjection False u' P [1, 1, 1] A W_dual0 = Inr PP \<and>
                 coeff P 0 5 = 1 \<and> coeff PP 0 5 = 2))"
proof -
  obtain A where A: "getLinearProjection [1, 1, 1] = Inr A" "nrows A = 3" "ncols A = 3"
    "\<And>r c. coeff A r c = 0"
    using getLinearProjection_zero [of "[1, 1, 1]"] by auto
  define W where "W = \<lparr> nrows = 12, ncols = 12,
                coeff = (\<lambda>r c. if (r = 0 \<and> c = 5) \<or> (r = 5 \<and> c = 0) then (1::real) else 0) \<rparr>"
  define W_dual0 where "W_dual0 = \<lparr> nrows = 12, ncols = 12, coeff = zeros \<rparr>"
  have W: "nrows W = 12" "ncols W = 12" and W0: "nrows W_dual0 = 12" "ncols W_dual0 = 12"
    by (simp_all add: W_def W_dual0_def)
  have sym: "coeff W r c = coeff W c r" for r c
    by (auto simp: W_def)
  have chk: "getOptimalDualProjection True u W [1, 1, 1] A W_dual0 = Inl TransposeAliasing"
    by (rule projection_12(1) [OF W A(2-4) W0])
  obtain P where P: "getOptimalDualProjection False u W [1, 1, 1] A W_dual0 = Inr P"
    "nrows P = 12" "ncols P = 12" "coeff P 0 5 = coeff W 0 5 - coeff W 1 4"
    "coeff P 1 4 = coeff W 1 4 - coeff W 0 5"
    using projection_12(2) [OF W A(2-4) W0] by blast
  obtain PP where PP: "getOptimalDualProjection False u' P [1, 1, 1] A W_dual0 = Inr PP"
    "coeff PP 0 5 = coeff P 0 5 - coeff P 1 4"
    using projection_12(2) [OF P(2,3) A(2-4) W0] by blast
  have P05: "coeff P 0 5 = 1" and P14: "coeff P 1 4 = - 1"
    using P(4,5) by (simp_all add: W_def)
  have "coeff PP 0 5 = 2"
    unfolding PP(2) P05 P14 by simp
  with P05 have "coeff P 0 5 = 1" "coeff PP 0 5 = 2"
    by simp_all
  with A(1) sym chk P(1) PP(1) show ?thesis
    unfolding Let_def W_def [symmetric] W_dual0_def [symmetric] by blast
qed

section \<open>Properties of the initial guess\<close>

text \<open>
  Every iteration of the loop of \<open>getLambdaGuess\<close> fails: \<^verbatim>\<open>theta(1, i)\<close> asks for row 1
  of a vector whose only row is row 0 (and if \<open>src\<close> has no column \<open>i\<close>, \<^verbatim>\<open>src.col(i)\<close>
  has failed before).
\<close>

lemma lambda_step_fails:
  "lambda_step cbar2 R theta src dst i s = Inl IndexOutOfRange"
  by (cases s) (simp add: lambda_step_def col_def row_vector_coeff_def bindE_def)

lemma getLambdaGuess_nonempty:
  "getLambdaGuess cbar2 R (t # ts) src dst = Inl IndexOutOfRange"
  by (simp add: getLambdaGuess_def Let_def upt_rec [of 0] lambda_step_fails bindE_def)

text \<open>
  C7 (fails on the code).  Called as \<open>certify\<close> calls it, with a theta-prepended vector
  \<open>t # ts\<close> of length \<open>N + 1\<close> (\<open>N = length ts\<close>), \<open>getLambdaGuess\<close> returns no matrix: its
  first iteration stops at \<^verbatim>\<open>theta(1, 0)\<close>.  The size it has given its result by then is
  \<open>4 K + 4\<close> with \<open>K = N + 1\<close>, that is \<open>4 (N + 2)\<close> and not \<open>4 (N + 1)\<close>.
\<close>

theorem getLambdaGuess_fails:
  "getLambdaGuess cbar2 R (t # ts) src dst = Inl IndexOutOfRange
   \<and> lambda_guess_Npm (t # ts) = 4 * (length ts + 2)"
  by (simp add: getLambdaGuess_nonempty lambda_guess_Npm_def)

text \<open>
  C3 (fails on the code).  For a theta-prepended vector \<open>t # ts\<close>, computing the initial
  guess and projecting it stops in \<open>getLambdaGuess\<close>: there is no \<open>\<Lambda>\<^sub>0\<close> that the projector
  could return again.  Moreover a matrix \<open>L\<close> of the size that \<open>getLambdaGuess\<close> gives its
  result, \<open>4 (N + 2)\<close>, is rejected by the projector called with the same vector: its
  assertion \<^verbatim>\<open>theta_prepended.cols() == N + 1\<close> compares \<open>N + 1\<close> with \<open>N + 2\<close>.
\<close>

theorem lambda_guess_not_projected:
  "bindE (getLambdaGuess cbar2 R (t # ts) src dst)
     (\<lambda>Lambda0. bindE (getLinearProjection (t # ts))
        (\<lambda>A_inv. getOptimalDualProjection assertions u Lambda0 (t # ts) A_inv W_dual0))
     = Inl IndexOutOfRange
   \<and> getOptimalDualProjection assertions u (L \<lparr> nrows := lambda_guess_Npm (t # ts) \<rparr>) (t # ts) A W_dual0
     = Inl AssertFailed"
  by (simp add: getLambdaGuess_nonempty bindE_def getOptimalDualProjection_def lambda_guess_Npm_def
      Let_def)

section \<open>Properties of the certifier\<close>

text \<open>
  C10.  For every input, \<open>certify\<close> fails at its first step: \<open>theta_prepended\<close> has no
  coefficient when \<open>1\<close> and the entries of \<open>theta\<close> are streamed into it.  The result is
  this failure, so none of the later steps (the inverse map, the cost matrix, the block
  embedding, the initial guess) is reached.
\<close>

theorem certify_first_step_fails:
  "certify cbar2 to_quaternion u R_solution src dst theta = Inl CommaInitEmpty"
  by (simp add: certify_def comma_init_row_def bindE_def)







end
